theory Spec2Isabelle
  imports Main
begin

section \<open>JavaScript values\<close>

text \<open>
  The documents of the CV endpoint are plain JSON-like JavaScript values: what MongoDB
  returns from \<^verbatim>\<open>findOne\<close>, what Express parses from a form body, and the object
  literals of the code. An object is an association list in insertion order (first entry
  of a key is the one read); an array is the list of its elements, a hole reading as
  \<^verbatim>\<open>undefined\<close>. Numbers are restricted to integers (no NaN, no fractions): the only
  numbers the modelled code computes with are the indices produced by \<^verbatim>\<open>Number.parseInt\<close>
  and array lengths.
  Prototype properties (\<^verbatim>\<open>toString\<close>, \<^verbatim>\<open>constructor\<close>, ...) are not part of the model.
\<close>

datatype jsval =
    Undefined
  | Null
  | Bool bool
  | Num int
  | Str string
  | Arr "jsval list"
  | Obj "(string \<times> jsval) list"

type_synonym jsobj = "(string \<times> jsval) list"

datatype error = TypeError | SyntaxError

text \<open>ToBoolean: the falsy values are undefined, null, false, 0 and the empty string.\<close>

fun truthy :: "jsval \<Rightarrow> bool" where
  "truthy Undefined = False"
| "truthy Null = False"
| "truthy (Bool b) = b"
| "truthy (Num n) = (n \<noteq> 0)"
| "truthy (Str s) = (s \<noteq> [])"
| "truthy (Arr xs) = True"
| "truthy (Obj kvs) = True"

text \<open>The operator \<^verbatim>\<open>a || b\<close>.\<close>

definition js_or :: "jsval \<Rightarrow> jsval \<Rightarrow> jsval" where
  "js_or a b = (if truthy a then a else b)"

text \<open>\<^verbatim>\<open>Array.isArray(v)\<close> and \<^verbatim>\<open>typeof v === "object"\<close> (which holds of null too).\<close>

fun isArray :: "jsval \<Rightarrow> bool" where
  "isArray (Arr xs) = True"
| "isArray v = False"

fun typeof_object :: "jsval \<Rightarrow> bool" where
  "typeof_object Null = True"
| "typeof_object (Arr xs) = True"
| "typeof_object (Obj kvs) = True"
| "typeof_object v = False"

text \<open>Own-property read \<^verbatim>\<open>o[k]\<close>, write \<^verbatim>\<open>o[k] = v\<close> and \<^verbatim>\<open>delete o[k]\<close> on an object.\<close>

definition js_get :: "jsobj \<Rightarrow> string \<Rightarrow> jsval" where
  "js_get ob k = (case map_of ob k of None \<Rightarrow> Undefined | Some v \<Rightarrow> v)"

primrec js_set :: "(string \<times> 'a) list \<Rightarrow> string \<Rightarrow> 'a \<Rightarrow> (string \<times> 'a) list" where
  "js_set [] k v = [(k, v)]"
| "js_set (p # ps) k v = (if fst p = k then (k, v) # ps else p # js_set ps k v)"

definition js_delete :: "jsobj \<Rightarrow> string \<Rightarrow> jsobj" where
  "js_delete ob k = filter (\<lambda>p. fst p \<noteq> k) ob"

definition js_keys :: "jsobj \<Rightarrow> string set" where
  "js_keys ob = fst ` set ob"

text \<open>
  Element read \<^verbatim>\<open>arr[i]\<close> and write \<^verbatim>\<open>arr[i] = v\<close> on an array, for an integer \<open>i\<close>. A read
  outside \<open>[0, length)\<close> gives \<^verbatim>\<open>undefined\<close>. A write at \<open>i \<ge> length\<close> extends the array,
  the new positions before \<open>i\<close> being holes; a write at a negative \<open>i\<close> sets a property that
  is not an element, so the element sequence stays as it is.
\<close>

definition arr_read :: "jsval list \<Rightarrow> int \<Rightarrow> jsval" where
  "arr_read xs i = (if 0 \<le> i \<and> i < int (length xs) then xs ! nat i else Undefined)"

definition arr_write :: "jsval list \<Rightarrow> int \<Rightarrow> jsval \<Rightarrow> jsval list" where
  "arr_write xs i v =
     (if i < 0 then xs
      else if i < int (length xs) then xs[nat i := v]
      else xs @ replicate (nat i - length xs) Undefined @ [v])"

text \<open>\<^verbatim>\<open>arr.splice(i, 1)\<close> for \<open>0 \<le> i < length\<close>: the element at \<open>i\<close> is removed.\<close>

definition splice1 :: "jsval list \<Rightarrow> nat \<Rightarrow> jsval list" where
  "splice1 xs i = take i xs @ drop (Suc i) xs"


text \<open>
  ToString. A number prints in decimal (integers below \<open>10^21\<close> in magnitude do); an array
  prints as its elements joined by commas, null and undefined elements as the empty string
  (\<^verbatim>\<open>Array.prototype.join\<close>); an object prints as \<^verbatim>\<open>[object Object]\<close>.
\<close>

fun show_nat :: "nat \<Rightarrow> string" where
  "show_nat n =
     (if n < 10 then [''0123456789'' ! n]
      else show_nat (n div 10) @ [''0123456789'' ! (n mod 10)])"

definition show_int :: "int \<Rightarrow> string" where
  "show_int i = (if i < 0 then CHR ''-'' # show_nat (nat (- i)) else show_nat (nat i))"

fun join_strs :: "string list \<Rightarrow> string" where
  "join_strs [] = []"
| "join_strs [s] = s"
| "join_strs (s # t # ts) = s @ CHR '','' # join_strs (t # ts)"

fun js_toString :: "jsval \<Rightarrow> string" where
  "js_toString Undefined = ''undefined''"
| "js_toString Null = ''null''"
| "js_toString (Bool b) = (if b then ''true'' else ''false'')"
| "js_toString (Num n) = show_int n"
| "js_toString (Str s) = s"
| "js_toString (Arr xs) =
     join_strs (map (\<lambda>x. if x = Undefined \<or> x = Null then [] else js_toString x) xs)"
| "js_toString (Obj kvs) = ''[object Object]''"

text \<open>\<^verbatim>\<open>arr.join(",")\<close>\<close>

definition js_join :: "jsval list \<Rightarrow> string" where
  "js_join xs = js_toString (Arr xs)"

text \<open>
  The array index a property key denotes, among the indices below \<open>n\<close>: the key must be
  the canonical decimal form of the index.
\<close>

definition key_index :: "string \<Rightarrow> nat \<Rightarrow> nat option" where
  "key_index k n = find (\<lambda>i. show_nat i = k) [0..<n]"

text \<open>
  Property read \<^verbatim>\<open>v[k]\<close> on a value that is neither null nor undefined (where the read
  throws; the callers below test for these two first). Arrays and strings have their
  \<^verbatim>\<open>length\<close> and their indexed elements; numbers and booleans have no own property.
\<close>

fun js_prop :: "jsval \<Rightarrow> string \<Rightarrow> jsval" where
  "js_prop (Obj kvs) k = js_get kvs k"
| "js_prop (Arr xs) k =
     (if k = ''length'' then Num (int (length xs))
      else case key_index k (length xs) of None \<Rightarrow> Undefined | Some i \<Rightarrow> xs ! i)"
| "js_prop (Str s) k =
     (if k = ''length'' then Num (int (length s))
      else case key_index k (length s) of None \<Rightarrow> Undefined | Some i \<Rightarrow> Str [s ! i])"
| "js_prop v k = Undefined"

text \<open>
  \<^verbatim>\<open>delete v[k]\<close> in strict mode (the sources are ES modules) on a value that is neither
  null nor undefined: an object loses the key, an array element becomes a hole, and the
  non-configurable \<^verbatim>\<open>length\<close> and string indices make the delete throw.
\<close>

fun js_delete_prop :: "jsval \<Rightarrow> string \<Rightarrow> error + jsval" where
  "js_delete_prop (Obj kvs) k = Inr (Obj (js_delete kvs k))"
| "js_delete_prop (Arr xs) k =
     (if k = ''length'' then Inl TypeError
      else case key_index k (length xs) of
             None \<Rightarrow> Inr (Arr xs)
           | Some i \<Rightarrow> Inr (Arr (xs[i := Undefined])))"
| "js_delete_prop (Str s) k =
     (if k = ''length'' then Inl TypeError
      else case key_index k (length s) of None \<Rightarrow> Inr (Str s) | Some i \<Rightarrow> Inl TypeError)"
| "js_delete_prop v k = Inr v"


section \<open>Profile document storage (lib/storage/cv.js)\<close>

text \<open>
  The collection \<^verbatim>\<open>cvData\<close> holds at most one document, under \<^verbatim>\<open>_id: "cv"\<close>:
  \<open>None\<close> is the empty collection, for which \<^verbatim>\<open>findOne\<close> returns null. Every operation
  takes the collection and the clock reading \<^verbatim>\<open>new Date().toISOString()\<close> and returns the
  document handed to the caller together with the collection afterwards. The export of the
  saved document to a JSON file is not modelled.

  The module is present in two revisions whose section and skill helpers are identical.
  The model follows the one with the interests migrator (the revision that also defines
  \<^verbatim>\<open>migrateInterests\<close> and \<^verbatim>\<open>migrateInterestTypes\<close>).
\<close>

type_synonym store = "jsobj option"

definition getCvData :: "store \<Rightarrow> jsobj option" where
  "getCvData db = db"

definition getDefaultCvData :: jsobj where
  "getDefaultCvData =
     [(''experience'', Arr []), (''projects'', Arr []), (''skills'', Obj []),
      (''skillTypes'', Obj []), (''education'', Arr []), (''languages'', Arr []),
      (''interests'', Obj []), (''interestTypes'', Obj []), (''lastUpdated'', Null)]"

text \<open>\<^verbatim>\<open>(await getCvData(application)) || getDefaultCvData()\<close>\<close>

definition loadCvData :: "store \<Rightarrow> jsobj" where
  "loadCvData db = (case getCvData db of None \<Rightarrow> getDefaultCvData | Some d \<Rightarrow> d)"

subsection \<open>Schema migrator\<close>

text \<open>\<^verbatim>\<open>const type = types[interest] || "personal"\<close>, with \<^verbatim>\<open>types = interestTypes || {}\<close>.\<close>

definition interest_type :: "jsval \<Rightarrow> jsval \<Rightarrow> jsval" where
  "interest_type interestTypes interest =
     js_or (js_prop (js_or interestTypes (Obj [])) (js_toString interest)) (Str ''personal'')"

text \<open>\<^verbatim>\<open>const category = type === "work" ? "Work" : "Personal"\<close>\<close>

definition interest_category :: "jsval \<Rightarrow> string" where
  "interest_category t = (if t = Str ''work'' then ''Work'' else ''Personal'')"

text \<open>
  The loop of \<^verbatim>\<open>migrateInterests\<close>. The local object \<^verbatim>\<open>groups\<close> only ever holds arrays,
  so \<^verbatim>\<open>!groups[category]\<close> is the absence of the key.
\<close>

fun group_interests ::
  "jsval \<Rightarrow> jsval list \<Rightarrow> (string \<times> jsval list) list \<Rightarrow> (string \<times> jsval list) list" where
  "group_interests interestTypes [] groups = groups"
| "group_interests interestTypes (interest # rest) groups =
     (let type = interest_type interestTypes interest;
          category = interest_category type;
          members = (case map_of groups category of None \<Rightarrow> [] | Some ys \<Rightarrow> ys)
      in group_interests interestTypes rest (js_set groups category (members @ [interest])))"

definition migrateInterests :: "jsval \<Rightarrow> jsval \<Rightarrow> jsval" where
  "migrateInterests interests interestTypes =
     (if \<not> truthy interests then Obj []
      else case interests of
             Arr xs \<Rightarrow>
               (if length xs = 0 then Obj []
                else Obj (map (\<lambda>(k, ys). (k, Arr ys)) (group_interests interestTypes xs [])))
           | _ \<Rightarrow> (if typeof_object interests then interests else Obj []))"

text \<open>The loop of \<^verbatim>\<open>migrateInterestTypes\<close>: \<^verbatim>\<open>categoryTypes[category] = type\<close>.\<close>

fun category_types :: "jsval \<Rightarrow> jsval list \<Rightarrow> jsobj \<Rightarrow> jsobj" where
  "category_types interestTypes [] categoryTypes = categoryTypes"
| "category_types interestTypes (interest # rest) categoryTypes =
     (let type = interest_type interestTypes interest;
          category = interest_category type
      in category_types interestTypes rest (js_set categoryTypes category type))"

definition migrateInterestTypes :: "jsval \<Rightarrow> jsval \<Rightarrow> jsval" where
  "migrateInterestTypes interests interestTypes =
     (if \<not> truthy interests then Obj []
      else case interests of
             Arr xs \<Rightarrow>
               (if length xs = 0 then Obj []
                else Obj (category_types interestTypes xs []))
           | _ \<Rightarrow> (if typeof_object interestTypes then interestTypes else Obj []))"

subsection \<open>Whole-document save\<close>

definition cv_document :: "string \<Rightarrow> jsobj \<Rightarrow> jsobj" where
  "cv_document now data =
     [(''_id'', Str ''cv''),
      (''experience'', js_or (js_get data ''experience'') (Arr [])),
      (''projects'', js_or (js_get data ''projects'') (Arr [])),
      (''skills'', js_or (js_get data ''skills'') (Obj [])),
      (''skillTypes'', js_or (js_get data ''skillTypes'') (Obj [])),
      (''education'', js_or (js_get data ''education'') (Arr [])),
      (''languages'', js_or (js_get data ''languages'') (Arr [])),
      (''interests'', migrateInterests (js_get data ''interests'') (js_get data ''interestTypes'')),
      (''interestTypes'',
         migrateInterestTypes (js_get data ''interests'') (js_get data ''interestTypes'')),
      (''lastUpdated'', Str now)]"

text \<open>\<^verbatim>\<open>replaceOne\<close> with upsert stores the document; the same document is returned.\<close>

definition saveCvData :: "store \<Rightarrow> string \<Rightarrow> jsobj \<Rightarrow> jsobj \<times> store" where
  "saveCvData db now data = (let document = cv_document now data in (document, Some document))"

text \<open>
  The earlier revision of the module has no migrator. Its \<^verbatim>\<open>saveCvData\<close> builds the same
  document except for \<^verbatim>\<open>interests: data.interests || []\<close> and
  \<^verbatim>\<open>interestTypes: data.interestTypes || {}\<close>.
\<close>

definition cv_document_unmigrated :: "string \<Rightarrow> jsobj \<Rightarrow> jsobj" where
  "cv_document_unmigrated now data =
     [(''_id'', Str ''cv''),
      (''experience'', js_or (js_get data ''experience'') (Arr [])),
      (''projects'', js_or (js_get data ''projects'') (Arr [])),
      (''skills'', js_or (js_get data ''skills'') (Obj [])),
      (''skillTypes'', js_or (js_get data ''skillTypes'') (Obj [])),
      (''education'', js_or (js_get data ''education'') (Arr [])),
      (''languages'', js_or (js_get data ''languages'') (Arr [])),
      (''interests'', js_or (js_get data ''interests'') (Arr [])),
      (''interestTypes'', js_or (js_get data ''interestTypes'') (Obj [])),
      (''lastUpdated'', Str now)]"

subsection \<open>Ordered sections\<close>

definition addToSection :: "store \<Rightarrow> string \<Rightarrow> string \<Rightarrow> jsval \<Rightarrow> jsobj \<times> store" where
  "addToSection db now section item =
     (let data = loadCvData db;
          arr = (case js_get data section of Arr xs \<Rightarrow> xs | _ \<Rightarrow> [])
      in saveCvData db now (js_set data section (Arr (arr @ [item]))))"

definition updateInSection ::
  "store \<Rightarrow> string \<Rightarrow> string \<Rightarrow> int \<Rightarrow> jsval \<Rightarrow> jsobj \<times> store" where
  "updateInSection db now section index item =
     (let data = loadCvData db
      in case js_get data section of
           Arr xs \<Rightarrow>
             (if index \<ge> 0 \<and> index < int (length xs)
              then saveCvData db now (js_set data section (Arr (arr_write xs index item)))
              else saveCvData db now data)
         | _ \<Rightarrow> saveCvData db now data)"

definition removeFromSection :: "store \<Rightarrow> string \<Rightarrow> string \<Rightarrow> int \<Rightarrow> jsobj \<times> store" where
  "removeFromSection db now section index =
     (let data = loadCvData db
      in case js_get data section of
           Arr xs \<Rightarrow>
             (if index \<ge> 0 \<and> index < int (length xs)
              then saveCvData db now (js_set data section (Arr (splice1 xs (nat index))))
              else saveCvData db now data)
         | _ \<Rightarrow> saveCvData db now data)"

text \<open>
  The swap \<^verbatim>\<open>[arr[index], arr[targetIndex]] = [arr[targetIndex], arr[index]]\<close> reads both
  elements first, then writes \<^verbatim>\<open>arr[index]\<close>, then \<^verbatim>\<open>arr[targetIndex]\<close>. Only
  \<^verbatim>\<open>targetIndex\<close> is tested against the bounds. The two early returns hand back the
  loaded document and do not save.
\<close>

definition moveInSection ::
  "store \<Rightarrow> string \<Rightarrow> string \<Rightarrow> int \<Rightarrow> string \<Rightarrow> jsobj \<times> store" where
  "moveInSection db now section index direction =
     (let data = loadCvData db
      in case js_get data section of
           Arr arr \<Rightarrow>
             (let targetIndex = (if direction = ''up'' then index - 1 else index + 1)
              in if targetIndex < 0 \<or> targetIndex \<ge> int (length arr) then (data, db)
                 else
                   (let fromTarget = arr_read arr targetIndex;
                        fromIndex = arr_read arr index;
                        arr1 = arr_write arr index fromTarget;
                        arr2 = arr_write arr1 targetIndex fromIndex
                    in saveCvData db now (js_set data section (Arr arr2))))
         | _ \<Rightarrow> (data, db))"

subsection \<open>Skill categories\<close>

text \<open>
  \<^verbatim>\<open>if (typeof v !== "object" || Array.isArray(v)) v = {}\<close>. What is left afterwards is
  an object or null (whose \<^verbatim>\<open>typeof\<close> is \<^verbatim>\<open>"object"\<close>); a member read or write on null
  throws.
\<close>

definition reset_unless_object :: "jsval \<Rightarrow> jsval" where
  "reset_unless_object v = (if \<not> typeof_object v \<or> isArray v then Obj [] else v)"

definition addSkillCategory ::
  "store \<Rightarrow> string \<Rightarrow> string \<Rightarrow> jsval \<Rightarrow> jsval \<Rightarrow> error + jsobj \<times> store" where
  "addSkillCategory db now category items skillType =
     (let data = loadCvData db
      in case reset_unless_object (js_get data ''skills'') of
           Obj skills \<Rightarrow>
             (case reset_unless_object (js_get data ''skillTypes'') of
                Obj skillTypes \<Rightarrow>
                  (let skills' = js_set skills category items;
                       skillTypes' = js_set skillTypes category (js_or skillType (Str ''personal''))
                   in Inr (saveCvData db now
                        (js_set (js_set data ''skills'' (Obj skills'))
                           ''skillTypes'' (Obj skillTypes'))))
              | _ \<Rightarrow> Inl TypeError)
         | _ \<Rightarrow> Inl TypeError)"

text \<open>
  \<^verbatim>\<open>if (oldCategory !== newCategory && m[oldCategory]) delete m[oldCategory]\<close>
  on an object \<open>m\<close>.
\<close>

definition delete_renamed :: "jsobj \<Rightarrow> string \<Rightarrow> string \<Rightarrow> jsobj" where
  "delete_renamed m oldCategory newCategory =
     (if oldCategory \<noteq> newCategory \<and> truthy (js_get m oldCategory)
      then js_delete m oldCategory else m)"

definition editSkillCategory ::
  "store \<Rightarrow> string \<Rightarrow> string \<Rightarrow> string \<Rightarrow> jsval \<Rightarrow> jsval \<Rightarrow> error + jsobj \<times> store" where
  "editSkillCategory db now oldCategory newCategory items skillType =
     (let data = loadCvData db
      in case reset_unless_object (js_get data ''skills'') of
           Obj skills \<Rightarrow>
             (case reset_unless_object (js_get data ''skillTypes'') of
                Obj skillTypes \<Rightarrow>
                  (let skills' =
                         js_set (delete_renamed skills oldCategory newCategory) newCategory items;
                       skillTypes' =
                         js_set (delete_renamed skillTypes oldCategory newCategory) newCategory
                           (js_or skillType (Str ''personal''))
                   in Inr (saveCvData db now
                        (js_set (js_set data ''skills'' (Obj skills'))
                           ''skillTypes'' (Obj skillTypes'))))
              | _ \<Rightarrow> Inl TypeError)
         | _ \<Rightarrow> Inl TypeError)"

text \<open>\<^verbatim>\<open>if (data[field] && data[field][category]) delete data[field][category]\<close>\<close>

definition delete_if_present :: "jsobj \<Rightarrow> string \<Rightarrow> string \<Rightarrow> error + jsobj" where
  "delete_if_present data field category =
     (let v = js_get data field
      in if truthy v \<and> truthy (js_prop v category)
         then (case js_delete_prop v category of
                 Inl e \<Rightarrow> Inl e
               | Inr v' \<Rightarrow> Inr (js_set data field v'))
         else Inr data)"

definition removeSkillCategory ::
  "store \<Rightarrow> string \<Rightarrow> string \<Rightarrow> error + jsobj \<times> store" where
  "removeSkillCategory db now category =
     (case delete_if_present (loadCvData db) ''skills'' category of
        Inl e \<Rightarrow> Inl e
      | Inr data1 \<Rightarrow>
          (case delete_if_present data1 ''skillTypes'' category of
             Inl e \<Rightarrow> Inl e
           | Inr data2 \<Rightarrow> Inr (saveCvData db now data2)))"

text \<open>A sequence of skill-category calls, each at its own clock reading.\<close>

datatype skill_op =
    AddSkill string jsval jsval
  | EditSkill string string jsval jsval
  | RemoveSkill string

fun skill_step :: "store \<Rightarrow> string \<times> skill_op \<Rightarrow> error + jsobj \<times> store" where
  "skill_step db (now, AddSkill category items skillType) =
     addSkillCategory db now category items skillType"
| "skill_step db (now, EditSkill oldCategory newCategory items skillType) =
     editSkillCategory db now oldCategory newCategory items skillType"
| "skill_step db (now, RemoveSkill category) = removeSkillCategory db now category"

fun skill_run :: "store \<Rightarrow> (string \<times> skill_op) list \<Rightarrow> error + store" where
  "skill_run db [] = Inr db"
| "skill_run db (c # cs) =
     (case skill_step db c of Inl e \<Rightarrow> Inl e | Inr (document, db') \<Rightarrow> skill_run db' cs)"

fun list_valued :: "skill_op \<Rightarrow> bool" where
  "list_valued (AddSkill category items skillType) = isArray items"
| "list_valued (EditSkill oldCategory newCategory items skillType) = isArray items"
| "list_valued (RemoveSkill category) = True"


section \<open>Page configuration storage (lib/storage/cvPageConfig.js)\<close>

text \<open>The collection \<^verbatim>\<open>cvPageConfig\<close> holds at most one document, under \<^verbatim>\<open>_id: "cv-page"\<close>.\<close>

definition getConfig :: "store \<Rightarrow> jsobj option" where
  "getConfig db = db"

definition default_hero :: jsval where
  "default_hero = Obj [(''enabled'', Bool True), (''showSocial'', Bool True)]"

definition page_document :: "string \<Rightarrow> jsobj \<Rightarrow> jsobj" where
  "page_document now config =
     [(''_id'', Str ''cv-page''),
      (''layout'', js_or (js_get config ''layout'') (Str ''single-column'')),
      (''hero'', js_or (js_get config ''hero'') default_hero),
      (''sections'', js_or (js_get config ''sections'') (Arr [])),
      (''sidebar'', js_or (js_get config ''sidebar'') (Arr [])),
      (''footer'', js_or (js_get config ''footer'') (Arr [])),
      (''identity'', js_or (js_get config ''identity'') Null),
      (''updatedAt'', Str now)]"

definition saveConfig :: "store \<Rightarrow> string \<Rightarrow> jsobj \<Rightarrow> jsobj \<times> store" where
  "saveConfig db now config = (let document = page_document now config in (document, Some document))"

text \<open>The object literal \<^verbatim>\<open>{ type: t, config: c }\<close>.\<close>

definition entry :: "string \<Rightarrow> jsobj \<Rightarrow> jsval" where
  "entry t c = Obj [(''type'', Str t), (''config'', Obj c)]"

definition getDefaultConfig :: jsobj where
  "getDefaultConfig =
     [(''layout'', Str ''single-column''),
      (''hero'', default_hero),
      (''sections'', Arr
         [entry ''cv-experience-work'' [], entry ''cv-skills-work'' [],
          entry ''cv-projects-work'' [], entry ''cv-education-work'' [],
          entry ''cv-languages'' [], entry ''cv-interests-work'' []]),
      (''sidebar'', Arr []),
      (''footer'', Arr [])]"


section \<open>Page builder controller (lib/controllers/pageBuilder.js)\<close>

record preset =
  preset_id :: string
  label :: string
  description :: string
  layout :: string
  hero :: jsval
  sections :: "jsval list"
  sidebar :: "jsval list"

text \<open>The three object literals of \<^verbatim>\<open>getCvPresets\<close>, in the order of the returned array.\<close>

definition preset_professional_cv :: preset where
  "preset_professional_cv =
     \<lparr>preset_id = ''professional-cv'',
      label = ''Professional CV'',
      description =
        ''Clean single-column layout with work-only sections for a professional resume'',
      layout = ''single-column'',
      hero = default_hero,
      sections =
        [entry ''cv-experience-work'' [], entry ''cv-skills-work'' [],
         entry ''cv-projects-work'' [], entry ''cv-education-work'' [],
         entry ''cv-languages'' [], entry ''cv-interests-work'' []],
      sidebar = []\<rparr>"

definition preset_full_portfolio :: preset where
  "preset_full_portfolio =
     \<lparr>preset_id = ''full-portfolio'',
      label = ''Full Portfolio'',
      description =
        ''Two-column layout showcasing both work and personal projects with sidebar'',
      layout = ''two-column'',
      hero = default_hero,
      sections =
        [entry ''cv-experience'' [(''maxItems'', Num 5)], entry ''cv-skills'' [],
         entry ''cv-projects'' [], entry ''cv-education'' [],
         entry ''cv-languages'' [], entry ''cv-interests'' []],
      sidebar =
        [entry ''author-card'' [], entry ''social-activity'' [], entry ''github-repos'' []]\<rparr>"

definition preset_minimal :: preset where
  "preset_minimal =
     \<lparr>preset_id = ''minimal'',
      label = ''Minimal'',
      description = ''Concise single-column layout with essential sections only'',
      layout = ''single-column'',
      hero = default_hero,
      sections =
        [entry ''cv-experience-work'' [(''maxItems'', Num 5)], entry ''cv-skills-work'' [],
         entry ''cv-education-work'' []],
      sidebar = []\<rparr>"

definition getCvPresets :: "preset list" where
  "getCvPresets = [preset_professional_cv, preset_full_portfolio, preset_minimal]"

text \<open>\<^verbatim>\<open>xs.map((s) => s.type)\<close>: the read throws on a null or undefined element.\<close>

fun entry_types :: "jsval list \<Rightarrow> error + jsval list" where
  "entry_types [] = Inr []"
| "entry_types (s # rest) =
     (if s = Undefined \<or> s = Null then Inl TypeError
      else case entry_types rest of
             Inl e \<Rightarrow> Inl e
           | Inr ts \<Rightarrow> Inr (js_prop s ''type'' # ts))"

text \<open>
  \<^verbatim>\<open>(v || []).map((s) => s.type)\<close>: a truthy value that is not an array has no
  \<^verbatim>\<open>map\<close> method, and the call throws.
\<close>

definition types_of :: "jsval \<Rightarrow> error + jsval list" where
  "types_of v = (case js_or v (Arr []) of Arr xs \<Rightarrow> entry_types xs | _ \<Rightarrow> Inl TypeError)"

text \<open>The result is the identifier of a preset, or \<open>None\<close> for null.\<close>

fun detectActivePreset :: "jsobj \<Rightarrow> preset list \<Rightarrow> error + string option" where
  "detectActivePreset config [] = Inr None"
| "detectActivePreset config (preset # rest) =
     (if js_get config ''layout'' \<noteq> Str (layout preset) then detectActivePreset config rest
      else case types_of (js_get config ''sections'') of
        Inl e \<Rightarrow> Inl e
      | Inr configTypes \<Rightarrow>
     (case entry_types (sections preset) of
        Inl e \<Rightarrow> Inl e
      | Inr presetTypes \<Rightarrow>
     (if js_join configTypes \<noteq> js_join presetTypes then detectActivePreset config rest
      else case types_of (js_get config ''sidebar'') of
        Inl e \<Rightarrow> Inl e
      | Inr configWidgets \<Rightarrow>
     (case entry_types (sidebar preset) of
        Inl e \<Rightarrow> Inl e
      | Inr presetWidgets \<Rightarrow>
     (if js_join configWidgets \<noteq> js_join presetWidgets then detectActivePreset config rest
      else Inr (Some (preset_id preset)))))))"

text \<open>
  What a handler of the controller did: saved the configuration, rejected an unknown
  preset (status 400), or caught an exception (status 500). The collection afterwards is
  returned beside it.
\<close>

datatype reply = Saved | UnknownPreset | Failed error

text \<open>
  \<^verbatim>\<open>typeof v === "string" ? JSON.parse(v) : v\<close>. The parser is a parameter: \<open>None\<close> is
  its SyntaxError.
\<close>

definition parse_field :: "(string \<Rightarrow> jsval option) \<Rightarrow> jsval \<Rightarrow> error + jsval" where
  "parse_field json_parse v =
     (case v of
        Str s \<Rightarrow> (case json_parse s of None \<Rightarrow> Inl SyntaxError | Some w \<Rightarrow> Inr w)
      | _ \<Rightarrow> Inr v)"

definition validLayouts :: "string list" where
  "validLayouts = [''single-column'', ''two-column'', ''full-width-hero'']"

text \<open>\<^verbatim>\<open>currentConfig?.field\<close>\<close>

definition current_field :: "jsobj option \<Rightarrow> string \<Rightarrow> jsval" where
  "current_field currentConfig k =
     (case currentConfig of None \<Rightarrow> Undefined | Some c \<Rightarrow> js_get c k)"

definition save_config :: "jsval \<Rightarrow> jsval \<Rightarrow> jsval \<Rightarrow> jsval \<Rightarrow> jsval \<Rightarrow> jsobj option \<Rightarrow> jsobj" where
  "save_config layout_in parsedHero parsedSections parsedSidebar parsedFooter currentConfig =
     [(''layout'',
         if layout_in \<in> set (map Str validLayouts) then layout_in else Str ''single-column''),
      (''hero'',
         if typeof_object parsedHero \<and> parsedHero \<noteq> Null then parsedHero else default_hero),
      (''sections'', if isArray parsedSections then parsedSections else Arr []),
      (''sidebar'', if isArray parsedSidebar then parsedSidebar else Arr []),
      (''footer'', if isArray parsedFooter then parsedFooter else Arr []),
      (''identity'', js_or (current_field currentConfig ''identity'') Null)]"

definition save ::
  "(string \<Rightarrow> jsval option) \<Rightarrow> store \<Rightarrow> string \<Rightarrow> jsobj \<Rightarrow> reply \<times> store" where
  "save json_parse db now body =
     (case parse_field json_parse (js_get body ''hero'') of
        Inl e \<Rightarrow> (Failed e, db)
      | Inr parsedHero \<Rightarrow>
     (case parse_field json_parse (js_get body ''sections'') of
        Inl e \<Rightarrow> (Failed e, db)
      | Inr parsedSections \<Rightarrow>
     (case parse_field json_parse (js_get body ''sidebar'') of
        Inl e \<Rightarrow> (Failed e, db)
      | Inr parsedSidebar \<Rightarrow>
     (case parse_field json_parse (js_get body ''footer'') of
        Inl e \<Rightarrow> (Failed e, db)
      | Inr parsedFooter \<Rightarrow>
          (Saved,
           snd (saveConfig db now
                  (save_config (js_get body ''layout'') parsedHero parsedSections
                     parsedSidebar parsedFooter (getConfig db))))))))"

text \<open>
  The spread \<^verbatim>\<open>{ ...v }\<close> copies the own enumerable properties of \<open>v\<close>: those of an
  object, the indexed elements of an array or a string, none of another value.
\<close>

fun spread :: "jsval \<Rightarrow> jsval" where
  "spread (Obj kvs) = Obj kvs"
| "spread (Arr xs) = Obj (map (\<lambda>i. (show_nat i, xs ! i)) [0..<length xs])"
| "spread (Str s) = Obj (map (\<lambda>i. (show_nat i, Str [s ! i])) [0..<length s])"
| "spread v = Obj []"

definition applyPreset :: "store \<Rightarrow> string \<Rightarrow> jsobj \<Rightarrow> reply \<times> store" where
  "applyPreset db now body =
     (case find (\<lambda>p. Str (preset_id p) = js_get body ''presetId'') getCvPresets of
        None \<Rightarrow> (UnknownPreset, db)
      | Some preset \<Rightarrow>
          (let currentConfig = getConfig db;
               config =
                 [(''layout'', Str (layout preset)),
                  (''hero'', spread (hero preset)),
                  (''sections'', Arr (map spread (sections preset))),
                  (''sidebar'', Arr (map spread (sidebar preset))),
                  (''footer'', js_or (current_field currentConfig ''footer'') (Arr [])),
                  (''identity'', js_or (current_field currentConfig ''identity'') Null)]
           in (Saved, snd (saveConfig db now config))))"

text \<open>
  \<^verbatim>\<open>Object.values(v)\<close> on a truthy value: the property values of an object in the order
  of the list, the elements of an array, the characters of a string, nothing otherwise.
\<close>

fun object_values :: "jsval \<Rightarrow> jsval list" where
  "object_values (Obj kvs) = map snd kvs"
| "object_values (Arr xs) = xs"
| "object_values (Str s) = map (\<lambda>c. Str [c]) s"
| "object_values v = []"

text \<open>
  The loop of \<^verbatim>\<open>parseSocialLinks\<close>: falsy entries and entries with neither name nor url
  are skipped.
\<close>

fun social_links :: "jsval list \<Rightarrow> jsval list" where
  "social_links [] = []"
| "social_links (e # rest) =
     (if \<not> truthy e \<or> (\<not> truthy (js_prop e ''name'') \<and> \<not> truthy (js_prop e ''url''))
      then social_links rest
      else Obj [(''name'', js_or (js_prop e ''name'') (Str [])),
                (''url'', js_or (js_prop e ''url'') (Str [])),
                (''rel'', js_or (js_prop e ''rel'') (Str ''me'')),
                (''icon'', js_or (js_prop e ''icon'') (Str []))]
           # social_links rest)"

definition parseSocialLinks :: "jsobj \<Rightarrow> jsval" where
  "parseSocialLinks body =
     (let social = js_get body ''social''
      in if \<not> truthy social then Arr []
         else Arr (social_links (case social of Arr xs \<Rightarrow> xs | _ \<Rightarrow> object_values social)))"

definition identity_of :: "jsobj \<Rightarrow> jsval" where
  "identity_of body =
     Obj [(''name'', js_or (js_get body ''identity-name'') (Str [])),
          (''avatar'', js_or (js_get body ''identity-avatar'') (Str [])),
          (''title'', js_or (js_get body ''identity-title'') (Str [])),
          (''pronoun'', js_or (js_get body ''identity-pronoun'') (Str [])),
          (''bio'', js_or (js_get body ''identity-bio'') (Str [])),
          (''description'', js_or (js_get body ''identity-description'') (Str [])),
          (''locality'', js_or (js_get body ''identity-locality'') (Str [])),
          (''country'', js_or (js_get body ''identity-country'') (Str [])),
          (''org'', js_or (js_get body ''identity-org'') (Str [])),
          (''url'', js_or (js_get body ''identity-url'') (Str [])),
          (''email'', js_or (js_get body ''identity-email'') (Str [])),
          (''keyUrl'', js_or (js_get body ''identity-keyUrl'') (Str [])),
          (''social'', parseSocialLinks body)]"

definition saveIdentity :: "store \<Rightarrow> string \<Rightarrow> jsobj \<Rightarrow> reply \<times> store" where
  "saveIdentity db now body =
     (let identity = identity_of body;
          currentConfig = getConfig db;
          config =
            [(''layout'', js_or (current_field currentConfig ''layout'') (Str ''single-column'')),
             (''hero'', js_or (current_field currentConfig ''hero'') default_hero),
             (''sections'', js_or (current_field currentConfig ''sections'') (Arr [])),
             (''sidebar'', js_or (current_field currentConfig ''sidebar'') (Arr [])),
             (''footer'', js_or (current_field currentConfig ''footer'') (Arr [])),
             (''identity'', identity)]
      in (Saved, snd (saveConfig db now config)))"

text \<open>A sequence of calls of the three handlers that save, each at its own clock reading.\<close>

datatype page_op = SavePage jsobj | ApplyPreset jsobj | SaveIdentity jsobj

fun page_step ::
  "(string \<Rightarrow> jsval option) \<Rightarrow> store \<Rightarrow> string \<times> page_op \<Rightarrow> reply \<times> store" where
  "page_step json_parse db (now, SavePage body) = save json_parse db now body"
| "page_step json_parse db (now, ApplyPreset body) = applyPreset db now body"
| "page_step json_parse db (now, SaveIdentity body) = saveIdentity db now body"

fun page_run ::
  "(string \<Rightarrow> jsval option) \<Rightarrow> store \<Rightarrow> (string \<times> page_op) list \<Rightarrow> store" where
  "page_run json_parse db [] = db"
| "page_run json_parse db (c # cs) = page_run json_parse (snd (page_step json_parse db c)) cs"


section \<open>Example documents\<close>

text \<open>A stored profile with one experience entry, as \<^verbatim>\<open>saveCvData\<close> wrote it.\<close>

definition stored_cv :: jsobj where
  "stored_cv =
     cv_document ''2024-01-01T00:00:00.000Z''
       [(''experience'', Arr [Obj [(''title'', Str ''Engineer'')]])]"


section \<open>Skill categories: the key-set invariant\<close>

text \<open>
  The key sets of \<^verbatim>\<open>skills\<close> and \<^verbatim>\<open>skillTypes\<close> agree. The operations delete a key
  only when its value is truthy, so the invariant that runs through a sequence of calls
  also says that every stored value is truthy.
\<close>

definition all_truthy :: "jsobj \<Rightarrow> bool" where
  "all_truthy m = list_all (\<lambda>p. truthy (snd p)) m"

definition same_keys :: "jsobj \<Rightarrow> bool" where
  "same_keys data =
     (case js_get data ''skills'' of
        Obj skills \<Rightarrow>
          (case js_get data ''skillTypes'' of
             Obj skillTypes \<Rightarrow> js_keys skills = js_keys skillTypes
           | _ \<Rightarrow> False)
      | _ \<Rightarrow> False)"

definition skills_inv :: "jsobj \<Rightarrow> bool" where
  "skills_inv data =
     (case js_get data ''skills'' of
        Obj skills \<Rightarrow>
          (case js_get data ''skillTypes'' of
             Obj skillTypes \<Rightarrow>
               js_keys skills = js_keys skillTypes \<and> all_truthy skills \<and> all_truthy skillTypes
           | _ \<Rightarrow> False)
      | _ \<Rightarrow> False)"

text \<open>A sequence of calls with list-valued items.\<close>

definition skill_calls :: "(string \<times> skill_op) list" where
  "skill_calls =
     [(''t1'', AddSkill ''Languages'' (Arr [Str ''JavaScript'']) Undefined),
      (''t2'', AddSkill ''Tools'' (Arr []) (Str ''work'')),
      (''t3'', EditSkill ''Languages'' ''Tools'' (Arr [Str ''Git'']) (Str ''work'')),
      (''t4'', RemoveSkill ''Languages''),
      (''t5'', EditSkill ''Tools'' ''Tooling'' (Arr [Str ''Git'']) Undefined)]"


section \<open>Page configuration: what a stored document looks like\<close>

text \<open>
  Every document \<^verbatim>\<open>saveConfig\<close> writes has a truthy \<^verbatim>\<open>footer\<close> (the value given or the
  empty array) and an \<^verbatim>\<open>identity\<close> that is truthy or null.
\<close>

definition saved_shape :: "jsobj \<Rightarrow> bool" where
  "saved_shape d =
     (truthy (js_get d ''footer'')
      \<and> (truthy (js_get d ''identity'') \<or> js_get d ''identity'' = Null))"

text \<open>The stored layout is one of the three valid layouts (or nothing is stored yet).\<close>

definition layout_valid :: "store \<Rightarrow> bool" where
  "layout_valid db =
     (case db of None \<Rightarrow> True | Some d \<Rightarrow> js_get d ''layout'' \<in> set (map Str validLayouts))"

text \<open>A stored page configuration and a form body for the save handler.\<close>

definition stored_page :: jsobj where
  "stored_page =
     page_document ''2024-01-01T00:00:00.000Z''
       [(''layout'', Str ''two-column''),
        (''footer'', Arr [entry ''custom-html'' [(''html'', Str ''bye'')]]),
        (''identity'', Obj [(''name'', Str ''Ada'')])]"

definition save_body :: jsobj where
  "save_body =
     [(''layout'', Str ''three-column''),
      (''hero'', Obj [(''enabled'', Bool False)]),
      (''sections'', Arr [entry ''cv-skills'' []])]"

text \<open>Calls of the three handlers, none with a layout of the enum.\<close>

definition page_calls :: "(string \<times> page_op) list" where
  "page_calls =
     [(''2024-02-02T00:00:00.000Z'', SavePage save_body),
      (''2024-02-03T00:00:00.000Z'', SaveIdentity [(''identity-name'', Str ''Ada'')]),
      (''2024-02-04T00:00:00.000Z'', SavePage [(''layout'', Num 3)]),
      (''2024-02-05T00:00:00.000Z'', ApplyPreset [(''presetId'', Str ''full-portfolio'')])]"


section \<open>Preset matching: the structural fingerprint\<close>

text \<open>
  A preset matches a configuration when the layouts are equal and the sequences of
  \<^verbatim>\<open>type\<close> values of \<^verbatim>\<open>sections\<close> and of \<^verbatim>\<open>sidebar\<close> are equal.
\<close>

definition preset_matches :: "jsobj \<Rightarrow> preset \<Rightarrow> bool" where
  "preset_matches config preset =
     (js_get config ''layout'' = Str (layout preset)
      \<and> types_of (js_get config ''sections'') = entry_types (sections preset)
      \<and> types_of (js_get config ''sidebar'') = entry_types (sidebar preset))"

text \<open>
  A type value is clean when it is a non-empty string without a comma; a sequence of
  types is clean when it was read without an exception and all its members are clean.
\<close>

fun clean_type :: "jsval \<Rightarrow> bool" where
  "clean_type (Str t) = (t \<noteq> [] \<and> CHR '','' \<notin> set t)"
| "clean_type v = False"

definition clean_types :: "error + jsval list \<Rightarrow> bool" where
  "clean_types r = (case r of Inl e \<Rightarrow> False | Inr ts \<Rightarrow> list_all clean_type ts)"

text \<open>
  Two configurations: one whose first section type holds a comma, and the full portfolio
  with another \<^verbatim>\<open>maxItems\<close>.
\<close>

definition comma_config :: jsobj where
  "comma_config =
     [(''layout'', Str ''single-column''),
      (''sections'', Arr
         [entry ''cv-experience-work,cv-skills-work'' [],
          entry ''cv-projects-work'' [], entry ''cv-education-work'' [],
          entry ''cv-languages'' [], entry ''cv-interests-work'' []]),
      (''sidebar'', Arr [])]"

definition portfolio_config :: jsobj where
  "portfolio_config =
     [(''layout'', Str ''two-column''),
      (''sections'', Arr
         [entry ''cv-experience'' [(''maxItems'', Num 3)], entry ''cv-skills'' [],
          entry ''cv-projects'' [], entry ''cv-education'' [],
          entry ''cv-languages'' [], entry ''cv-interests'' []]),
      (''sidebar'', Arr
         [entry ''author-card'' [], entry ''social-activity'' [], entry ''github-repos'' []])]"


section \<open>Basic facts about objects\<close>

lemma js_get_Cons: "js_get ((k, v) # ob) k' = (if k = k' then v else js_get ob k')"
  by (simp add: js_get_def)

lemma js_get_Nil: "js_get [] k = Undefined"
  by (simp add: js_get_def)

lemma js_get_js_set: "js_get (js_set ob k v) k' = (if k' = k then v else js_get ob k')"
  by (induction ob) (auto simp: js_get_def)

lemmas eval_cv =
  loadCvData_def getCvData_def cv_document_def saveCvData_def stored_cv_def
  js_get_Cons js_get_Nil js_or_def arr_read_def arr_write_def Let_def


section \<open>Ordered sections: indices outside the list\<close>

text \<open>
  \<^verbatim>\<open>updateInSection\<close> and \<^verbatim>\<open>removeFromSection\<close> test the index itself: with an index
  outside the list they save the loaded document as it is.
\<close>

lemma updateInSection_out_of_range:
  assumes "js_get (loadCvData db) section = Arr xs"
    and "\<not> (0 \<le> index \<and> index < int (length xs))"
  shows "updateInSection db now section index item = saveCvData db now (loadCvData db)"
  using assms by (auto simp: updateInSection_def Let_def)

lemma removeFromSection_out_of_range:
  assumes "js_get (loadCvData db) section = Arr xs"
    and "\<not> (0 \<le> index \<and> index < int (length xs))"
  shows "removeFromSection db now section index = saveCvData db now (loadCvData db)"
  using assms by (auto simp: removeFromSection_def Let_def)

text \<open>
  \<^verbatim>\<open>moveInSection\<close> returns the loaded document without saving for every index outside
  the list but two: the index just past the end with direction up, and -1 with direction
  down.
\<close>

lemma moveInSection_out_of_range:
  assumes "js_get (loadCvData db) section = Arr xs"
    and "\<not> (0 \<le> index \<and> index < int (length xs))"
    and "\<not> (direction = ''up'' \<and> index = int (length xs))"
    and "\<not> (direction \<noteq> ''up'' \<and> index = - 1)"
  shows "moveInSection db now section index direction = (loadCvData db, db)"
  using assms by (auto simp: moveInSection_def Let_def)

lemma js_or_Arr: "js_or (Arr xs) b = Arr xs"
  by (simp add: js_or_def)

lemma cv_document_sections:
  "js_get data ''experience'' = Arr xs \<Longrightarrow> js_get (cv_document now data) ''experience'' = Arr xs"
  "js_get data ''projects'' = Arr xs \<Longrightarrow> js_get (cv_document now data) ''projects'' = Arr xs"
  "js_get data ''education'' = Arr xs \<Longrightarrow> js_get (cv_document now data) ''education'' = Arr xs"
  "js_get data ''languages'' = Arr xs \<Longrightarrow> js_get (cv_document now data) ''languages'' = Arr xs"
  by (simp_all add: cv_document_def js_get_Cons js_or_Arr)

text \<open>The save keeps the list of each of the four ordered sections.\<close>

lemma saveCvData_keeps_section:
  assumes "section \<in> {''experience'', ''projects'', ''education'', ''languages''}"
    and "js_get data section = Arr xs"
  shows "js_get (fst (saveCvData db now data)) section = Arr xs"
proof -
  have "js_get (cv_document now data) section = Arr xs"
    using assms cv_document_sections [of data xs now] by blast
  then show ?thesis
    by (simp add: saveCvData_def Let_def)
qed

text \<open>
  C1. An index outside \<open>[0, n)\<close> is meant to make every ordered-section operation a
  silent no-op. \<^verbatim>\<open>moveInSection\<close> tests only the target index: on a section of one entry,
  index 1 with direction up has target 0, the swap runs, and the saved section is a hole
  followed by the entry.
\<close>

theorem moveInSection_index_past_end:
  "js_get (loadCvData (Some stored_cv)) ''experience'' = Arr [Obj [(''title'', Str ''Engineer'')]]
   \<and> js_get (fst (moveInSection (Some stored_cv) ''2024-02-02T00:00:00.000Z''
                    ''experience'' 1 ''up'')) ''experience''
       = Arr [Undefined, Obj [(''title'', Str ''Engineer'')]]
   \<and> snd (moveInSection (Some stored_cv) ''2024-02-02T00:00:00.000Z'' ''experience'' 1 ''up'')
       = Some (fst (moveInSection (Some stored_cv) ''2024-02-02T00:00:00.000Z''
                      ''experience'' 1 ''up''))"
  by (simp add: moveInSection_def eval_cv)

text \<open>The same slip at the other end: index -1 with direction down loses the first entry.\<close>

lemma moveInSection_index_before_start:
  "js_get (fst (moveInSection (Some stored_cv) ''2024-02-02T00:00:00.000Z''
                  ''experience'' (- 1) ''down'')) ''experience''
     = Arr [Undefined]"
  by (simp add: moveInSection_def eval_cv)


section \<open>Moves at the boundary\<close>

text \<open>
  C2 as stated fails: moving the first entry up does not persist. The call returns the
  loaded document, the collection is as before, and \<^verbatim>\<open>lastUpdated\<close> keeps its old stamp.
\<close>

theorem moveInSection_boundary_not_saved:
  "moveInSection (Some stored_cv) ''2024-02-02T00:00:00.000Z'' ''experience'' 0 ''up''
     = (stored_cv, Some stored_cv)
   \<and> js_get stored_cv ''lastUpdated'' = Str ''2024-01-01T00:00:00.000Z''
   \<and> moveInSection (Some stored_cv) ''2024-02-02T00:00:00.000Z'' ''experience'' 0 ''up''
       \<noteq> saveCvData (Some stored_cv) ''2024-02-02T00:00:00.000Z'' stored_cv"
  by (simp add: moveInSection_def eval_cv)

text \<open>
  C2, amended. For a section holding a list \<open>xs\<close>, moving index 0 up and moving index
  \<open>length xs - 1\<close> down (any direction other than \<^verbatim>\<open>"up"\<close> counts as down) return the loaded
  document with the list as it was and leave the collection untouched: nothing is saved
  and no timestamp is stamped.
\<close>

theorem moveInSection_boundary:
  assumes "js_get (loadCvData db) section = Arr xs"
    and "(direction = ''up'' \<and> index = 0)
         \<or> (direction \<noteq> ''up'' \<and> index = int (length xs) - 1)"
  shows "moveInSection db now section index direction = (loadCvData db, db)"
  using assms by (auto simp: moveInSection_def Let_def)

theorem moveInSection_boundary_witness:
  "js_get (loadCvData (Some stored_cv)) ''experience'' = Arr [Obj [(''title'', Str ''Engineer'')]]
   \<and> moveInSection (Some stored_cv) ''2024-02-02T00:00:00.000Z'' ''experience'' 0 ''down''
       = (loadCvData (Some stored_cv), Some stored_cv)"
proof -
  have h: "js_get (loadCvData (Some stored_cv)) ''experience''
             = Arr [Obj [(''title'', Str ''Engineer'')]]"
    by (simp add: eval_cv)
  show ?thesis
    using h moveInSection_boundary [OF h, of "''down''" 0 "''2024-02-02T00:00:00.000Z''"]
    by simp
qed


section \<open>Schema migrator\<close>

lemma migrateInterests_Obj: "\<exists>m. migrateInterests i t = Obj m"
  by (cases i) (auto simp: migrateInterests_def)

lemma migrateInterestTypes_typeof: "typeof_object (migrateInterestTypes i t)"
  by (cases i) (auto simp: migrateInterestTypes_def)

lemma migrateInterests_current: "migrateInterests (Obj m) t = Obj m"
  by (simp add: migrateInterests_def)

lemma migrateInterestTypes_current:
  "migrateInterestTypes (Obj m) t = (if typeof_object t then t else Obj [])"
  by (simp add: migrateInterestTypes_def)

text \<open>
  C3. Whatever \<^verbatim>\<open>data\<close> holds, the document \<^verbatim>\<open>saveCvData\<close> builds has an object, never
  an array, under \<^verbatim>\<open>interests\<close>, and that document is the one stored. Every repository
  operation that persists does so through \<^verbatim>\<open>saveCvData\<close>.
\<close>

theorem saveCvData_interests_map_shaped:
  "(\<exists>m. js_get (fst (saveCvData db now data)) ''interests'' = Obj m)
   \<and> \<not> isArray (js_get (fst (saveCvData db now data)) ''interests'')
   \<and> snd (saveCvData db now data) = Some (fst (saveCvData db now data))"
proof -
  obtain m where
    m: "migrateInterests (js_get data ''interests'') (js_get data ''interestTypes'') = Obj m"
    using migrateInterests_Obj by blast
  show ?thesis
    by (simp add: saveCvData_def cv_document_def js_get_Cons Let_def m)
qed

text \<open>
  The earlier revision, which the migrator replaced, stored a legacy array as it came.
\<close>

lemma cv_document_unmigrated_keeps_array:
  "js_get (cv_document_unmigrated now [(''interests'', Arr [Str ''Chess''])]) ''interests''
     = Arr [Str ''Chess'']"
  by (simp add: cv_document_unmigrated_def js_get_Cons js_or_def)

text \<open>
  The operations on ordered sections and on skill categories persist through
  \<^verbatim>\<open>saveCvData\<close> only.
\<close>

lemma section_ops_save:
  "\<exists>data. addToSection db now section item = saveCvData db now data"
  "\<exists>data. updateInSection db now section index item = saveCvData db now data"
  "\<exists>data. removeFromSection db now section index = saveCvData db now data"
  "moveInSection db now section index direction = (loadCvData db, db)
   \<or> (\<exists>data. moveInSection db now section index direction = saveCvData db now data)"
  by (auto simp: addToSection_def updateInSection_def removeFromSection_def moveInSection_def
      Let_def split: jsval.splits)

lemma skill_ops_save:
  "addSkillCategory db now category items skillType = Inr r \<Longrightarrow>
     \<exists>data. r = saveCvData db now data"
  "editSkillCategory db now oldCategory newCategory items skillType = Inr r \<Longrightarrow>
     \<exists>data. r = saveCvData db now data"
  "removeSkillCategory db now category = Inr r \<Longrightarrow> \<exists>data. r = saveCvData db now data"
  by (auto simp: addSkillCategory_def editSkillCategory_def removeSkillCategory_def Let_def
      split: jsval.splits sum.splits)

text \<open>
  C5. Migrating the output of the migration gives that output again, for every pair of
  inputs (a legacy array with its type map in particular).
\<close>

theorem migration_idempotent:
  "migrateInterests (migrateInterests i t) (migrateInterestTypes i t) = migrateInterests i t
   \<and> migrateInterestTypes (migrateInterests i t) (migrateInterestTypes i t)
       = migrateInterestTypes i t"
proof -
  obtain m where m: "migrateInterests i t = Obj m"
    using migrateInterests_Obj by blast
  show ?thesis
    by (simp add: m migrateInterests_current migrateInterestTypes_current
        migrateInterestTypes_typeof)
qed

text \<open>
  C6. The legacy pair \<^verbatim>\<open>["Chess","Docker"]\<close>, \<^verbatim>\<open>{"Docker":"work"}\<close> migrates to
  \<^verbatim>\<open>{"Personal":["Chess"],"Work":["Docker"]}\<close> and \<^verbatim>\<open>{"Personal":"personal","Work":"work"}\<close>.
\<close>

theorem migration_chess_docker:
  "migrateInterests (Arr [Str ''Chess'', Str ''Docker'']) (Obj [(''Docker'', Str ''work'')])
     = Obj [(''Personal'', Arr [Str ''Chess'']), (''Work'', Arr [Str ''Docker''])]
   \<and> migrateInterestTypes (Arr [Str ''Chess'', Str ''Docker'']) (Obj [(''Docker'', Str ''work'')])
     = Obj [(''Personal'', Str ''personal''), (''Work'', Str ''work'')]"
  by (simp add: migrateInterests_def migrateInterestTypes_def interest_type_def
      interest_category_def js_or_def js_get_def)

text \<open>
  With map-shaped interests, a map-shaped \<^verbatim>\<open>interestTypes\<close> passes through and a value
  whose \<^verbatim>\<open>typeof\<close> is not \<^verbatim>\<open>"object"\<close> (a string, a number, a boolean, undefined) becomes
  the empty map.
\<close>

lemma migrateInterestTypes_map_shaped:
  "migrateInterestTypes (Obj m) (Obj t) = Obj t"
  "\<not> typeof_object t' \<Longrightarrow> migrateInterestTypes (Obj m) t' = Obj []"
  by (simp_all add: migrateInterestTypes_current)

text \<open>
  C7. An \<^verbatim>\<open>interestTypes\<close> that is not map-shaped is meant to be reset to the empty map.
  The test is \<^verbatim>\<open>typeof interestTypes === "object"\<close>, which an array and null pass: both
  are returned as they are.
\<close>

theorem migrateInterestTypes_array_and_null:
  "migrateInterestTypes (Obj [(''Work'', Arr [Str ''Docker''])]) (Arr [Str ''work''])
     = Arr [Str ''work'']
   \<and> migrateInterestTypes (Obj [(''Work'', Arr [Str ''Docker''])]) Null = Null"
  by (simp add: migrateInterestTypes_def)


section \<open>Skill categories\<close>

lemma js_keys_js_set: "js_keys (js_set m k v) = insert k (js_keys m)"
  by (induction m) (auto simp: js_keys_def)

lemma js_keys_js_delete: "js_keys (js_delete m k) = js_keys m - {k}"
  by (auto simp: js_keys_def js_delete_def)

lemma all_truthy_js_set: "all_truthy m \<Longrightarrow> truthy v \<Longrightarrow> all_truthy (js_set m k v)"
  by (induction m) (auto simp: all_truthy_def)

lemma all_truthy_js_delete: "all_truthy m \<Longrightarrow> all_truthy (js_delete m k)"
  by (induction m) (auto simp: all_truthy_def js_delete_def)

lemma truthy_js_get_iff: "all_truthy m \<Longrightarrow> truthy (js_get m k) = (k \<in> js_keys m)"
  by (induction m) (auto simp: all_truthy_def js_get_def js_keys_def)

lemma truthy_js_or_personal: "truthy (js_or v (Str ''personal''))"
  by (simp add: js_or_def)

lemma isArray_truthy: "isArray v \<Longrightarrow> truthy v"
  by (cases v) simp_all

lemma skills_invI:
  assumes "js_get data ''skills'' = Obj s" and "js_get data ''skillTypes'' = Obj t"
    and "js_keys s = js_keys t" and "all_truthy s" and "all_truthy t"
  shows "skills_inv data"
  using assms by (simp add: skills_inv_def)

lemma skills_invE:
  assumes "skills_inv data"
  obtains s t where "js_get data ''skills'' = Obj s" and "js_get data ''skillTypes'' = Obj t"
    and "js_keys s = js_keys t" and "all_truthy s" and "all_truthy t"
  using assms by (auto simp: skills_inv_def split: jsval.splits)

lemma cv_document_skills:
  "js_get data ''skills'' = Obj s \<Longrightarrow> js_get (cv_document now data) ''skills'' = Obj s"
  "js_get data ''skillTypes'' = Obj t \<Longrightarrow> js_get (cv_document now data) ''skillTypes'' = Obj t"
  by (simp_all add: cv_document_def js_get_Cons js_or_def)

lemma load_after_save: "loadCvData (snd (saveCvData db now data)) = cv_document now data"
  by (simp add: saveCvData_def loadCvData_def getCvData_def Let_def)

lemma skills_inv_saved:
  assumes "js_keys s = js_keys t" and "all_truthy s" and "all_truthy t"
  shows "skills_inv (loadCvData (snd (saveCvData db now
            (js_set (js_set data ''skills'' (Obj s)) ''skillTypes'' (Obj t)))))"
proof -
  let ?data = "js_set (js_set data ''skills'' (Obj s)) ''skillTypes'' (Obj t)"
  have "js_get ?data ''skills'' = Obj s" and "js_get ?data ''skillTypes'' = Obj t"
    by (simp_all add: js_get_js_set)
  then have "js_get (cv_document now ?data) ''skills'' = Obj s"
    and "js_get (cv_document now ?data) ''skillTypes'' = Obj t"
    by (simp_all add: cv_document_skills)
  then show ?thesis
    using assms by (simp add: load_after_save skills_invI)
qed

lemma skills_inv_default: "skills_inv (loadCvData None)"
  by (simp add: skills_inv_def loadCvData_def getCvData_def getDefaultCvData_def js_get_Cons
      js_keys_def all_truthy_def)

lemma js_keys_delete_renamed:
  "all_truthy m \<Longrightarrow>
   js_keys (delete_renamed m old new) = (if old \<noteq> new then js_keys m - {old} else js_keys m)"
  by (auto simp: delete_renamed_def js_keys_js_delete truthy_js_get_iff)

lemma all_truthy_delete_renamed: "all_truthy m \<Longrightarrow> all_truthy (delete_renamed m old new)"
  by (simp add: delete_renamed_def all_truthy_js_delete)

lemma addSkillCategory_inv:
  assumes "skills_inv (loadCvData db)" and "isArray items"
  shows "\<exists>document db'. addSkillCategory db now category items skillType = Inr (document, db')
           \<and> skills_inv (loadCvData db')"
proof -
  from assms(1) obtain s t where
    st: "js_get (loadCvData db) ''skills'' = Obj s" "js_get (loadCvData db) ''skillTypes'' = Obj t"
    and inv: "js_keys s = js_keys t" "all_truthy s" "all_truthy t"
    by (rule skills_invE)
  let ?s = "js_set s category items"
  let ?t = "js_set t category (js_or skillType (Str ''personal''))"
  let ?data = "js_set (js_set (loadCvData db) ''skills'' (Obj ?s)) ''skillTypes'' (Obj ?t)"
  have run: "addSkillCategory db now category items skillType = Inr (saveCvData db now ?data)"
    by (simp add: addSkillCategory_def st reset_unless_object_def Let_def)
  have "skills_inv (loadCvData (snd (saveCvData db now ?data)))"
    using inv assms(2)
    by (intro skills_inv_saved)
       (simp_all add: js_keys_js_set all_truthy_js_set truthy_js_or_personal isArray_truthy)
  with run show ?thesis
    by (metis prod.collapse)
qed

lemma editSkillCategory_inv:
  assumes "skills_inv (loadCvData db)" and "isArray items"
  shows "\<exists>document db'.
           editSkillCategory db now oldCategory newCategory items skillType = Inr (document, db')
           \<and> skills_inv (loadCvData db')"
proof -
  from assms(1) obtain s t where
    st: "js_get (loadCvData db) ''skills'' = Obj s" "js_get (loadCvData db) ''skillTypes'' = Obj t"
    and inv: "js_keys s = js_keys t" "all_truthy s" "all_truthy t"
    by (rule skills_invE)
  let ?s = "js_set (delete_renamed s oldCategory newCategory) newCategory items"
  let ?t = "js_set (delete_renamed t oldCategory newCategory) newCategory
              (js_or skillType (Str ''personal''))"
  let ?data = "js_set (js_set (loadCvData db) ''skills'' (Obj ?s)) ''skillTypes'' (Obj ?t)"
  have run: "editSkillCategory db now oldCategory newCategory items skillType
               = Inr (saveCvData db now ?data)"
    by (simp add: editSkillCategory_def st reset_unless_object_def Let_def)
  have "skills_inv (loadCvData (snd (saveCvData db now ?data)))"
    using inv assms(2)
    by (intro skills_inv_saved)
       (simp_all add: js_keys_js_set all_truthy_js_set truthy_js_or_personal isArray_truthy
          js_keys_delete_renamed all_truthy_delete_renamed)
  with run show ?thesis
    by (metis prod.collapse)
qed


lemma delete_if_present_Obj:
  assumes "js_get data field = Obj m"
  shows "delete_if_present data field category =
           Inr (if truthy (js_get m category)
                then js_set data field (Obj (js_delete m category)) else data)"
  using assms by (simp add: delete_if_present_def Let_def)

lemma removeSkillCategory_inv:
  assumes "skills_inv (loadCvData db)"
  shows "\<exists>document db'. removeSkillCategory db now category = Inr (document, db')
           \<and> skills_inv (loadCvData db')"
proof -
  from assms obtain s t where
    st: "js_get (loadCvData db) ''skills'' = Obj s" "js_get (loadCvData db) ''skillTypes'' = Obj t"
    and inv: "js_keys s = js_keys t" "all_truthy s" "all_truthy t"
    by (rule skills_invE)
  let ?data = "loadCvData db"
  show ?thesis
  proof (cases "category \<in> js_keys s")
    case True
    let ?data1 = "js_set ?data ''skills'' (Obj (js_delete s category))"
    let ?data2 = "js_set ?data1 ''skillTypes'' (Obj (js_delete t category))"
    have d1: "delete_if_present ?data ''skills'' category = Inr ?data1"
      using True inv by (simp add: delete_if_present_Obj [OF st(1)] truthy_js_get_iff)
    have "js_get ?data1 ''skillTypes'' = Obj t"
      by (simp add: js_get_js_set st)
    then have d2: "delete_if_present ?data1 ''skillTypes'' category = Inr ?data2"
      using True inv by (simp add: delete_if_present_Obj truthy_js_get_iff)
    have run: "removeSkillCategory db now category = Inr (saveCvData db now ?data2)"
      by (simp add: removeSkillCategory_def d1 d2)
    have "skills_inv (loadCvData (snd (saveCvData db now ?data2)))"
      using inv by (intro skills_inv_saved) (simp_all add: js_keys_js_delete all_truthy_js_delete)
    with run show ?thesis
      by (metis prod.collapse)
  next
    case False
    have d1: "delete_if_present ?data ''skills'' category = Inr ?data"
      using False inv by (simp add: delete_if_present_Obj [OF st(1)] truthy_js_get_iff)
    have d2: "delete_if_present ?data ''skillTypes'' category = Inr ?data"
      using False inv by (simp add: delete_if_present_Obj [OF st(2)] truthy_js_get_iff)
    have run: "removeSkillCategory db now category = Inr (saveCvData db now ?data)"
      by (simp add: removeSkillCategory_def d1 d2)
    have "skills_inv (cv_document now ?data)"
      using inv
      by (rule skills_invI [OF cv_document_skills(1) [OF st(1)] cv_document_skills(2) [OF st(2)]])
    then have "skills_inv (loadCvData (snd (saveCvData db now ?data)))"
      by (simp add: load_after_save)
    with run show ?thesis
      by (metis prod.collapse)
  qed
qed

lemma skill_step_inv:
  assumes "skills_inv (loadCvData db)" and "list_valued (snd c)"
  shows "\<exists>document db'. skill_step db c = Inr (document, db') \<and> skills_inv (loadCvData db')"
proof (cases c)
  case (Pair now op)
  show ?thesis
  proof (cases op)
    case (AddSkill category items skillType)
    with Pair assms show ?thesis
      using addSkillCategory_inv [of db items now category skillType] by simp
  next
    case (EditSkill oldCategory newCategory items skillType)
    with Pair assms show ?thesis
      using editSkillCategory_inv [of db items now oldCategory newCategory skillType] by simp
  next
    case (RemoveSkill category)
    with Pair assms show ?thesis
      using removeSkillCategory_inv [of db now category] by simp
  qed
qed

lemma skill_run_inv:
  assumes "skills_inv (loadCvData db)" and "\<forall>c \<in> set cs. list_valued (snd c)"
  shows "\<exists>db'. skill_run db cs = Inr db' \<and> skills_inv (loadCvData db')"
  using assms
proof (induction cs arbitrary: db)
  case Nil
  then show ?case by simp
next
  case (Cons c cs)
  then obtain document db1 where
    step: "skill_step db c = Inr (document, db1)" and inv1: "skills_inv (loadCvData db1)"
    using skill_step_inv [of db c] by auto
  from Cons.IH [OF inv1] Cons.prems(2) obtain db' where
    "skill_run db1 cs = Inr db'" and "skills_inv (loadCvData db')"
    by auto
  with step show ?case by simp
qed

lemma skills_inv_same_keys: "skills_inv data \<Longrightarrow> same_keys data"
  by (auto simp: skills_inv_def same_keys_def split: jsval.splits)

text \<open>
  C8. From the empty collection (the default document), every sequence of
  \<^verbatim>\<open>addSkillCategory\<close>, \<^verbatim>\<open>editSkillCategory\<close> and \<^verbatim>\<open>removeSkillCategory\<close> calls whose items
  are arrays runs without an exception, and in the resulting document \<^verbatim>\<open>skills\<close> and
  \<^verbatim>\<open>skillTypes\<close> are objects with the same key set.
\<close>

theorem skill_keys_invariant:
  assumes "\<forall>c \<in> set cs. list_valued (snd c)"
  shows "\<exists>db. skill_run None cs = Inr db \<and> same_keys (loadCvData db)"
  using skill_run_inv [OF skills_inv_default assms] skills_inv_same_keys by blast

theorem skill_keys_invariant_witness:
  "list_all (\<lambda>c. list_valued (snd c)) skill_calls
   \<and> (\<exists>db. skill_run None skill_calls = Inr db \<and> same_keys (loadCvData db))"
proof -
  have h: "\<forall>c \<in> set skill_calls. list_valued (snd c)"
    by (simp add: skill_calls_def)
  show ?thesis
    using h skill_keys_invariant [OF h] by (simp add: list_all_iff)
qed


section \<open>The preset catalog\<close>

lemma catalog_cases:
  assumes "p \<in> set getCvPresets"
  obtains "p = preset_professional_cv" | "p = preset_full_portfolio" | "p = preset_minimal"
  using assms by (auto simp: getCvPresets_def)

lemma preset_ids:
  "preset_id preset_professional_cv = ''professional-cv''"
  "preset_id preset_full_portfolio = ''full-portfolio''"
  "preset_id preset_minimal = ''minimal''"
  by (simp_all add: preset_professional_cv_def preset_full_portfolio_def preset_minimal_def)

lemma preset_layouts:
  "layout preset_professional_cv = ''single-column''"
  "layout preset_full_portfolio = ''two-column''"
  "layout preset_minimal = ''single-column''"
  by (simp_all add: preset_professional_cv_def preset_full_portfolio_def preset_minimal_def)

lemma preset_heroes:
  "hero preset_professional_cv = default_hero"
  "hero preset_full_portfolio = default_hero"
  "hero preset_minimal = default_hero"
  by (simp_all add: preset_professional_cv_def preset_full_portfolio_def preset_minimal_def)

lemma preset_sections:
  "sections preset_professional_cv =
     [entry ''cv-experience-work'' [], entry ''cv-skills-work'' [],
      entry ''cv-projects-work'' [], entry ''cv-education-work'' [],
      entry ''cv-languages'' [], entry ''cv-interests-work'' []]"
  "sections preset_full_portfolio =
     [entry ''cv-experience'' [(''maxItems'', Num 5)], entry ''cv-skills'' [],
      entry ''cv-projects'' [], entry ''cv-education'' [],
      entry ''cv-languages'' [], entry ''cv-interests'' []]"
  "sections preset_minimal =
     [entry ''cv-experience-work'' [(''maxItems'', Num 5)], entry ''cv-skills-work'' [],
      entry ''cv-education-work'' []]"
  by (simp_all add: preset_professional_cv_def preset_full_portfolio_def preset_minimal_def)

lemma preset_sidebars:
  "sidebar preset_professional_cv = []"
  "sidebar preset_full_portfolio =
     [entry ''author-card'' [], entry ''social-activity'' [], entry ''github-repos'' []]"
  "sidebar preset_minimal = []"
  by (simp_all add: preset_professional_cv_def preset_full_portfolio_def preset_minimal_def)

lemma spread_entry: "spread (entry t c) = entry t c"
  by (simp add: entry_def)

lemma spread_default_hero: "spread default_hero = default_hero"
  by (simp add: default_hero_def)

lemma catalog_spread:
  assumes "p \<in> set getCvPresets"
  shows "spread (hero p) = hero p" and "map spread (sections p) = sections p"
    and "map spread (sidebar p) = sidebar p"
  using assms
  by (auto elim!: catalog_cases
      simp: preset_heroes preset_sections preset_sidebars spread_entry spread_default_hero)

lemma catalog_find:
  assumes "p \<in> set getCvPresets"
  shows "find (\<lambda>q. preset_id q = preset_id p) getCvPresets = Some p"
  using assms
proof (cases rule: catalog_cases)
  case 1
  then show ?thesis by (simp add: getCvPresets_def preset_ids)
next
  case 2
  then show ?thesis by (simp add: getCvPresets_def preset_ids)
next
  case 3
  then show ?thesis by (simp add: getCvPresets_def preset_ids)
qed

lemma catalog_find_None:
  assumes "v \<notin> (\<lambda>p. Str (preset_id p)) ` set getCvPresets"
  shows "find (\<lambda>q. Str (preset_id q) = v) getCvPresets = None"
  using assms by (auto simp: find_None_iff)


section \<open>Page builder: saving a configuration\<close>

lemma page_document_layout:
  "js_get (page_document now config) ''layout'' = js_or (js_get config ''layout'') (Str ''single-column'')"
  by (simp add: page_document_def js_get_Cons)

lemma save_config_layout:
  "js_get (save_config l h s w f c) ''layout''
     = (if l \<in> Str ` set validLayouts then l else Str ''single-column'')"
  by (simp add: save_config_def js_get_Cons)

lemma valid_layout_truthy: "l \<in> Str ` set validLayouts \<Longrightarrow> truthy l"
  by (auto simp: validLayouts_def)

lemma single_column_valid: "Str ''single-column'' \<in> Str ` set validLayouts"
  by (simp add: validLayouts_def)

lemma saved_layout:
  "js_get (page_document now (save_config l h s w f c)) ''layout''
     = (if l \<in> Str ` set validLayouts then l else Str ''single-column'')"
  by (simp add: page_document_layout save_config_layout js_or_def valid_layout_truthy)

text \<open>Each of the three handlers keeps the stored layout valid.\<close>

lemma catalog_layout_valid:
  assumes "p \<in> set getCvPresets"
  shows "Str (layout p) \<in> Str ` set validLayouts"
  using assms
proof (cases rule: catalog_cases)
  case 1
  then show ?thesis by (simp add: preset_layouts validLayouts_def)
next
  case 2
  then show ?thesis by (simp add: preset_layouts validLayouts_def)
next
  case 3
  then show ?thesis by (simp add: preset_layouts validLayouts_def)
qed

lemma save_layout_valid: "layout_valid db \<Longrightarrow> layout_valid (snd (save json_parse db now body))"
  by (auto simp: save_def saveConfig_def Let_def layout_valid_def saved_layout single_column_valid
      split: sum.splits)

lemma applyPreset_layout_valid: "layout_valid db \<Longrightarrow> layout_valid (snd (applyPreset db now body))"
proof (cases "find (\<lambda>p. Str (preset_id p) = js_get body ''presetId'') getCvPresets")
  case None
  assume "layout_valid db"
  with None show ?thesis by (simp add: applyPreset_def)
next
  case (Some p)
  then have "p \<in> set getCvPresets"
    by (auto simp: find_Some_iff)
  then have v: "Str (layout p) \<in> Str ` set validLayouts"
    by (rule catalog_layout_valid)
  then have "js_or (Str (layout p)) (Str ''single-column'') = Str (layout p)"
    using valid_layout_truthy [OF v] by (simp add: js_or_def)
  with v show ?thesis
    by (simp add: applyPreset_def Some Let_def saveConfig_def layout_valid_def
        page_document_layout js_get_Cons)
qed

lemma saveIdentity_layout_valid: "layout_valid db \<Longrightarrow> layout_valid (snd (saveIdentity db now body))"
proof -
  assume a: "layout_valid db"
  have "js_or (js_or (current_field (getConfig db) ''layout'') (Str ''single-column''))
          (Str ''single-column'') \<in> Str ` set validLayouts"
  proof (cases db)
    case None
    then show ?thesis
      by (simp add: current_field_def getConfig_def js_or_def single_column_valid)
  next
    case (Some d)
    with a have v: "js_get d ''layout'' \<in> Str ` set validLayouts"
      by (simp add: layout_valid_def)
    then have "truthy (js_get d ''layout'')"
      by (rule valid_layout_truthy)
    with v Some show ?thesis
      by (simp add: current_field_def getConfig_def js_or_def)
  qed
  then show ?thesis
    by (simp add: saveIdentity_def Let_def saveConfig_def layout_valid_def page_document_layout
        js_get_Cons)
qed

lemma page_step_layout_valid:
  "layout_valid db \<Longrightarrow> layout_valid (snd (page_step json_parse db c))"
proof (cases c)
  case (Pair now op)
  assume "layout_valid db"
  with Pair show ?thesis
    by (cases op)
       (simp_all add: save_layout_valid applyPreset_layout_valid saveIdentity_layout_valid)
qed

lemma page_run_layout_valid:
  "layout_valid db \<Longrightarrow> layout_valid (page_run json_parse db cs)"
  by (induction cs arbitrary: db) (simp_all add: page_step_layout_valid)

lemma page_layout_invariant: "layout_valid (page_run json_parse None cs)"
  by (rule page_run_layout_valid) (simp add: layout_valid_def)

text \<open>
  C9. The stored \<^verbatim>\<open>layout\<close> is one of \<^verbatim>\<open>single-column\<close>, \<^verbatim>\<open>two-column\<close>,
  \<^verbatim>\<open>full-width-hero\<close> after every sequence of saves (by the save handler, the identity
  handler or a preset) from the empty collection; and when the save handler saves, on
  any collection, the stored layout is the supplied value if it is one of the three, and
  \<^verbatim>\<open>single-column\<close> otherwise.
\<close>

theorem save_layout_in_enum:
  "layout_valid (page_run json_parse None cs)
   \<and> (save json_parse db now body = (Saved, db') \<longrightarrow>
        (\<exists>document. db' = Some document
           \<and> js_get document ''layout'' \<in> Str ` set validLayouts
           \<and> js_get document ''layout''
               = (if js_get body ''layout'' \<in> Str ` set validLayouts
                  then js_get body ''layout'' else Str ''single-column'')))"
proof (intro conjI impI)
  show "layout_valid (page_run json_parse None cs)"
    by (rule page_layout_invariant)
next
  assume "save json_parse db now body = (Saved, db')"
  then show "\<exists>document. db' = Some document
           \<and> js_get document ''layout'' \<in> Str ` set validLayouts
           \<and> js_get document ''layout''
               = (if js_get body ''layout'' \<in> Str ` set validLayouts
                  then js_get body ''layout'' else Str ''single-column'')"
    by (auto simp: save_def saveConfig_def Let_def saved_layout single_column_valid
        split: sum.splits)
qed

theorem save_layout_in_enum_witness:
  "save (\<lambda>s. None) None ''2024-02-02T00:00:00.000Z'' save_body
     = (Saved, Some (page_document ''2024-02-02T00:00:00.000Z''
          (save_config (Str ''three-column'') (Obj [(''enabled'', Bool False)])
             (Arr [entry ''cv-skills'' []]) Undefined Undefined None)))
   \<and> js_get (page_document ''2024-02-02T00:00:00.000Z''
          (save_config (Str ''three-column'') (Obj [(''enabled'', Bool False)])
             (Arr [entry ''cv-skills'' []]) Undefined Undefined None)) ''layout''
       = Str ''single-column''
   \<and> layout_valid (page_run (\<lambda>s. None) None page_calls)"
proof -
  have h: "save (\<lambda>s. None) None ''2024-02-02T00:00:00.000Z'' save_body
     = (Saved, Some (page_document ''2024-02-02T00:00:00.000Z''
          (save_config (Str ''three-column'') (Obj [(''enabled'', Bool False)])
             (Arr [entry ''cv-skills'' []]) Undefined Undefined None)))"
    by (simp add: save_def save_body_def parse_field_def js_get_Cons js_get_Nil saveConfig_def
        getConfig_def Let_def)
  show ?thesis
    using h save_layout_in_enum [of "\<lambda>s. None" page_calls None
        "''2024-02-02T00:00:00.000Z''" save_body
        "Some (page_document ''2024-02-02T00:00:00.000Z''
          (save_config (Str ''three-column'') (Obj [(''enabled'', Bool False)])
             (Arr [entry ''cv-skills'' []]) Undefined Undefined None))"]
    by (simp add: save_body_def js_get_Cons validLayouts_def)
qed

text \<open>When the handler fails (a field does not parse), nothing is stored.\<close>

lemma save_failed_keeps_store:
  "save json_parse db now body = (Failed e, db') \<Longrightarrow> db' = db"
  by (auto simp: save_def split: sum.splits)


section \<open>Page builder: applying a preset\<close>

lemma saved_shape_page_document: "saved_shape (page_document now config)"
  by (simp add: saved_shape_def page_document_def js_get_Cons js_or_def)

text \<open>Every collection the three handlers can reach from the empty one has that shape.\<close>

lemma page_step_saved_shape:
  assumes "case db of None \<Rightarrow> True | Some d \<Rightarrow> saved_shape d"
  shows "case snd (page_step json_parse db c) of None \<Rightarrow> True | Some d \<Rightarrow> saved_shape d"
proof (cases c)
  case (Pair now op)
  show ?thesis
  proof (cases op)
    case (SavePage body)
    with Pair assms show ?thesis
      by (auto simp: save_def saveConfig_def Let_def saved_shape_page_document
          split: sum.splits option.splits)
  next
    case (ApplyPreset body)
    with Pair assms show ?thesis
      by (auto simp: applyPreset_def saveConfig_def Let_def saved_shape_page_document
          split: option.splits)
  next
    case (SaveIdentity body)
    with Pair show ?thesis
      by (simp add: saveIdentity_def saveConfig_def Let_def saved_shape_page_document)
  qed
qed

lemma page_run_saved_shape_from:
  "(case db of None \<Rightarrow> True | Some d \<Rightarrow> saved_shape d) \<Longrightarrow>
   (case page_run json_parse db cs of None \<Rightarrow> True | Some d \<Rightarrow> saved_shape d)"
  by (induction cs arbitrary: db) (simp_all add: page_step_saved_shape)

lemma page_run_saved_shape:
  "case page_run json_parse None cs of None \<Rightarrow> True | Some d \<Rightarrow> saved_shape d"
  by (rule page_run_saved_shape_from) simp

lemma js_or_kept:
  "truthy v \<Longrightarrow> js_or v d = v"
  "js_or Null Null = Null"
  "js_or Undefined d = d"
  by (simp_all add: js_or_def)

text \<open>
  C10. On a collection that is empty or holds a document of the shape \<^verbatim>\<open>saveConfig\<close>
  writes, applying a preset of the catalog stores the preset's \<^verbatim>\<open>layout\<close>, \<^verbatim>\<open>hero\<close>,
  \<^verbatim>\<open>sections\<close> and \<^verbatim>\<open>sidebar\<close> with the stored \<^verbatim>\<open>footer\<close> and \<^verbatim>\<open>identity\<close> (the empty
  array and null on the empty collection) and the new \<^verbatim>\<open>updatedAt\<close>; a \<^verbatim>\<open>presetId\<close>
  that names no preset is rejected and the collection stays as it is.
\<close>

theorem applyPreset_frame:
  assumes "case db of None \<Rightarrow> True | Some d \<Rightarrow> saved_shape d"
  shows "(preset \<in> set getCvPresets \<and> js_get body ''presetId'' = Str (preset_id preset) \<longrightarrow>
            applyPreset db now body =
              (Saved,
               Some [(''_id'', Str ''cv-page''),
                     (''layout'', Str (layout preset)),
                     (''hero'', hero preset),
                     (''sections'', Arr (sections preset)),
                     (''sidebar'', Arr (sidebar preset)),
                     (''footer'', case db of None \<Rightarrow> Arr [] | Some d \<Rightarrow> js_get d ''footer''),
                     (''identity'', case db of None \<Rightarrow> Null | Some d \<Rightarrow> js_get d ''identity''),
                     (''updatedAt'', Str now)]))
       \<and> (js_get body ''presetId'' \<notin> (\<lambda>p. Str (preset_id p)) ` set getCvPresets \<longrightarrow>
            applyPreset db now body = (UnknownPreset, db))"
proof (intro conjI impI)
  assume "js_get body ''presetId'' \<notin> (\<lambda>p. Str (preset_id p)) ` set getCvPresets"
  then show "applyPreset db now body = (UnknownPreset, db)"
    by (simp add: applyPreset_def catalog_find_None)
next
  assume a: "preset \<in> set getCvPresets \<and> js_get body ''presetId'' = Str (preset_id preset)"
  then have f: "find (\<lambda>q. Str (preset_id q) = js_get body ''presetId'') getCvPresets = Some preset"
    using catalog_find [of preset] by simp
  have foot: "js_or (current_field (getConfig db) ''footer'') (Arr [])
                = (case db of None \<Rightarrow> Arr [] | Some d \<Rightarrow> js_get d ''footer'')"
    using assms
    by (auto simp: current_field_def getConfig_def saved_shape_def js_or_kept split: option.splits)
  have ident: "js_or (current_field (getConfig db) ''identity'') Null
                = (case db of None \<Rightarrow> Null | Some d \<Rightarrow> js_get d ''identity'')"
    using assms
    by (auto simp: current_field_def getConfig_def saved_shape_def js_or_kept split: option.splits)
  have lay: "truthy (Str (layout preset))"
    using a by (auto elim!: catalog_cases simp: preset_layouts)
  have her: "truthy (hero preset)"
    using a by (auto elim!: catalog_cases simp: preset_heroes default_hero_def)
  have keep: "truthy (case db of None \<Rightarrow> Arr [] | Some d \<Rightarrow> js_get d ''footer'')"
    using assms by (auto simp: saved_shape_def split: option.splits)
  have keep2: "js_or (case db of None \<Rightarrow> Null | Some d \<Rightarrow> js_get d ''identity'') Null
                 = (case db of None \<Rightarrow> Null | Some d \<Rightarrow> js_get d ''identity'')"
    using assms by (auto simp: js_or_def saved_shape_def split: option.splits)
  show "applyPreset db now body =
          (Saved,
           Some [(''_id'', Str ''cv-page''),
                 (''layout'', Str (layout preset)),
                 (''hero'', hero preset),
                 (''sections'', Arr (sections preset)),
                 (''sidebar'', Arr (sidebar preset)),
                 (''footer'', case db of None \<Rightarrow> Arr [] | Some d \<Rightarrow> js_get d ''footer''),
                 (''identity'', case db of None \<Rightarrow> Null | Some d \<Rightarrow> js_get d ''identity''),
                 (''updatedAt'', Str now)])"
    unfolding applyPreset_def f
    using a lay her keep
    by (simp add: Let_def saveConfig_def page_document_def js_get_Cons
        catalog_spread foot ident keep2 js_or_kept(1))
qed

theorem applyPreset_frame_witness:
  "(case Some stored_page of None \<Rightarrow> True | Some d \<Rightarrow> saved_shape d)
   \<and> preset_minimal \<in> set getCvPresets
   \<and> applyPreset (Some stored_page) ''2024-02-02T00:00:00.000Z'' [(''presetId'', Str ''minimal'')]
       = (Saved,
          Some [(''_id'', Str ''cv-page''),
                (''layout'', Str ''single-column''),
                (''hero'', default_hero),
                (''sections'', Arr [entry ''cv-experience-work'' [(''maxItems'', Num 5)],
                                    entry ''cv-skills-work'' [], entry ''cv-education-work'' []]),
                (''sidebar'', Arr []),
                (''footer'', Arr [entry ''custom-html'' [(''html'', Str ''bye'')]]),
                (''identity'', Obj [(''name'', Str ''Ada'')]),
                (''updatedAt'', Str ''2024-02-02T00:00:00.000Z'')])
   \<and> applyPreset (Some stored_page) ''2024-02-02T00:00:00.000Z'' [(''presetId'', Str ''fancy'')]
       = (UnknownPreset, Some stored_page)"
proof -
  have h: "case Some stored_page of None \<Rightarrow> True | Some d \<Rightarrow> saved_shape d"
    by (simp add: stored_page_def saved_shape_page_document)
  have m: "preset_minimal \<in> set getCvPresets"
    by (simp add: getCvPresets_def)
  have known: "js_get [(''presetId'', Str ''minimal'')] ''presetId''
                 = Str (preset_id preset_minimal)"
    by (simp add: js_get_Cons preset_ids)
  have unknown: "js_get [(''presetId'', Str ''fancy'')] ''presetId''
                   \<notin> (\<lambda>p. Str (preset_id p)) ` set getCvPresets"
    by (simp add: js_get_Cons getCvPresets_def preset_ids)
  have vals: "js_get stored_page ''footer'' = Arr [entry ''custom-html'' [(''html'', Str ''bye'')]]"
    "js_get stored_page ''identity'' = Obj [(''name'', Str ''Ada'')]"
    by (simp_all add: stored_page_def page_document_def js_get_Cons js_get_Nil js_or_def)
  show ?thesis
    using h m
      applyPreset_frame [OF h, of "preset_minimal" "[(''presetId'', Str ''minimal'')]"
        "''2024-02-02T00:00:00.000Z''"]
      applyPreset_frame [OF h, of "preset_minimal" "[(''presetId'', Str ''fancy'')]"
        "''2024-02-02T00:00:00.000Z''"]
      known unknown
    by (simp add: vals preset_layouts preset_heroes preset_sections preset_sidebars)
qed


section \<open>Preset matcher\<close>

text \<open>
  C4 as stated fails: the type sequences are compared through their comma-joined
  strings. A configuration of five sections whose first type is
  \<^verbatim>\<open>cv-experience-work,cv-skills-work\<close> is detected as the professional CV, whose six
  section types join to the same string, although no preset of the catalog has its type
  sequence.
\<close>

theorem detectActivePreset_comma:
  "detectActivePreset comma_config getCvPresets = Inr (Some ''professional-cv'')
   \<and> \<not> preset_matches comma_config preset_professional_cv
   \<and> \<not> preset_matches comma_config preset_full_portfolio
   \<and> \<not> preset_matches comma_config preset_minimal"
  by (simp add: comma_config_def getCvPresets_def preset_professional_cv_def
      preset_full_portfolio_def preset_minimal_def preset_matches_def types_of_def js_or_def
      entry_def js_get_Cons js_get_Nil js_join_def)

text \<open>Joining is injective on clean sequences.\<close>

lemma join_strs_Cons:
  "join_strs (s # ss) = s @ (if ss = [] then [] else CHR '','' # join_strs ss)"
  by (cases ss) simp_all

lemma takeWhile_join:
  assumes "CHR '','' \<notin> set s"
  shows "takeWhile (\<lambda>c. c \<noteq> CHR '','') (join_strs (s # ss)) = s"
proof -
  have "\<forall>c \<in> set s. c \<noteq> CHR '',''"
    using assms by auto
  then show ?thesis
    by (simp add: join_strs_Cons)
qed

lemma dropWhile_join:
  assumes "CHR '','' \<notin> set s"
  shows "dropWhile (\<lambda>c. c \<noteq> CHR '','') (join_strs (s # ss))
           = (if ss = [] then [] else CHR '','' # join_strs ss)"
proof -
  have "\<forall>c \<in> set s. c \<noteq> CHR '',''"
    using assms by auto
  then show ?thesis
    by (simp add: join_strs_Cons)
qed

lemma join_strs_clean_inj:
  assumes "\<forall>s \<in> set ss. s \<noteq> [] \<and> CHR '','' \<notin> set s"
    and "\<forall>t \<in> set ts. t \<noteq> [] \<and> CHR '','' \<notin> set t"
    and "join_strs ss = join_strs ts"
  shows "ss = ts"
  using assms
proof (induction ss arbitrary: ts)
  case Nil
  then show ?case
    by (cases ts) (auto simp: join_strs_Cons)
next
  case (Cons s ss)
  show ?case
  proof (cases ts)
    case Nil
    with Cons.prems show ?thesis
      by (auto simp: join_strs_Cons)
  next
    case (Cons t ts')
    have cs: "CHR '','' \<notin> set s" and ct: "CHR '','' \<notin> set t"
      using Cons.prems Cons by auto
    have eq: "join_strs (s # ss) = join_strs (t # ts')"
      using Cons.prems(3) Cons by simp
    have "s = t"
      using arg_cong [OF eq, of "takeWhile (\<lambda>c. c \<noteq> CHR '','')"] cs ct
      by (simp add: takeWhile_join)
    moreover
    have rest: "(if ss = [] then [] else CHR '','' # join_strs ss)
                  = (if ts' = [] then [] else CHR '','' # join_strs ts')"
      using arg_cong [OF eq, of "dropWhile (\<lambda>c. c \<noteq> CHR '','')"] cs ct
      by (simp add: dropWhile_join)
    have "ss = ts'"
    proof (cases "ss = []")
      case True
      with rest show ?thesis by (auto split: if_splits)
    next
      case False
      with rest have "ts' \<noteq> []" and "join_strs ss = join_strs ts'"
        by (auto split: if_splits)
      then show ?thesis
        using Cons.IH [of ts'] Cons.prems Cons by auto
    qed
    ultimately show ?thesis
      using Cons by simp
  qed
qed

lemma clean_type_toString:
  "clean_type x \<Longrightarrow> x \<noteq> Undefined \<and> x \<noteq> Null \<and> js_toString x \<noteq> []
     \<and> CHR '','' \<notin> set (js_toString x)"
  by (cases x) auto

lemma clean_toString_inj:
  "clean_type x \<Longrightarrow> clean_type y \<Longrightarrow> js_toString x = js_toString y \<Longrightarrow> x = y"
  by (cases x; cases y) auto

lemma js_join_clean:
  "list_all clean_type xs \<Longrightarrow> js_join xs = join_strs (map js_toString xs)"
proof -
  assume "list_all clean_type xs"
  then have h: "map (\<lambda>x. if x = Undefined \<or> x = Null then [] else js_toString x) xs
               = map js_toString xs"
    by (induction xs) (auto dest: clean_type_toString)
  show ?thesis
    unfolding js_join_def by (simp only: js_toString.simps h)
qed

lemma map_toString_clean_inj:
  "list_all clean_type xs \<Longrightarrow> list_all clean_type ys \<Longrightarrow>
   map js_toString xs = map js_toString ys \<Longrightarrow> xs = ys"
proof (induction xs arbitrary: ys)
  case Nil
  then show ?case by simp
next
  case (Cons x xs)
  then show ?case
    by (cases ys) (auto dest: clean_toString_inj)
qed

lemma js_join_clean_inj:
  assumes "list_all clean_type xs" and "list_all clean_type ys"
  shows "(js_join xs = js_join ys) = (xs = ys)"
proof
  assume "js_join xs = js_join ys"
  then have "join_strs (map js_toString xs) = join_strs (map js_toString ys)"
    using assms by (simp add: js_join_clean)
  moreover have "\<forall>s \<in> set (map js_toString xs). s \<noteq> [] \<and> CHR '','' \<notin> set s"
    using assms(1) by (auto simp: list_all_iff dest: clean_type_toString)
  moreover have "\<forall>s \<in> set (map js_toString ys). s \<noteq> [] \<and> CHR '','' \<notin> set s"
    using assms(2) by (auto simp: list_all_iff dest: clean_type_toString)
  ultimately have "map js_toString xs = map js_toString ys"
    by (rule join_strs_clean_inj [rotated 2])
  then show "xs = ys"
    using assms by (rule map_toString_clean_inj [rotated 2])
next
  assume "xs = ys"
  then show "js_join xs = js_join ys" by simp
qed

lemma clean_typesE:
  assumes "clean_types r"
  obtains ts where "r = Inr ts" and "list_all clean_type ts"
  using assms by (auto simp: clean_types_def split: sum.splits)

text \<open>
  C4, amended. When the type sequences of the configuration and of every preset are
  clean, \<^verbatim>\<open>detectActivePreset\<close> returns the identifier of the first preset in catalog
  order that matches (equal layout, equal section type sequence, equal sidebar type
  sequence), and null exactly when no preset matches.
\<close>

theorem detectActivePreset_first_match:
  assumes "clean_types (types_of (js_get config ''sections''))"
    and "clean_types (types_of (js_get config ''sidebar''))"
    and "\<forall>p \<in> set presets. clean_types (entry_types (sections p))
                              \<and> clean_types (entry_types (sidebar p))"
  shows "detectActivePreset config presets
           = Inr (map_option preset_id (find (preset_matches config) presets))
         \<and> ((detectActivePreset config presets = Inr None)
              = (\<forall>p \<in> set presets. \<not> preset_matches config p))"
proof -
  from assms(1) obtain ct where ct: "types_of (js_get config ''sections'') = Inr ct"
    and cct: "list_all clean_type ct" by (rule clean_typesE)
  from assms(2) obtain cw where cw: "types_of (js_get config ''sidebar'') = Inr cw"
    and ccw: "list_all clean_type cw" by (rule clean_typesE)
  have main: "detectActivePreset config presets
                = Inr (map_option preset_id (find (preset_matches config) presets))"
    using assms(3)
  proof (induction presets)
    case Nil
    then show ?case by simp
  next
    case (Cons p ps)
    from Cons.prems obtain pt where pt: "entry_types (sections p) = Inr pt"
      and cpt: "list_all clean_type pt" by (auto elim: clean_typesE)
    from Cons.prems obtain pw where pw: "entry_types (sidebar p) = Inr pw"
      and cpw: "list_all clean_type pw" by (auto elim: clean_typesE)
    have ih: "detectActivePreset config ps
                = Inr (map_option preset_id (find (preset_matches config) ps))"
      using Cons by simp
    have j1: "(js_join ct = js_join pt) = (ct = pt)"
      using cct cpt by (rule js_join_clean_inj)
    have j2: "(js_join cw = js_join pw) = (cw = pw)"
      using ccw cpw by (rule js_join_clean_inj)
    have pm: "preset_matches config p
                = (js_get config ''layout'' = Str (layout p) \<and> ct = pt \<and> cw = pw)"
      by (auto simp: preset_matches_def ct cw pt pw)
    have step: "detectActivePreset config (p # ps)
                  = (if js_get config ''layout'' = Str (layout p) \<and> ct = pt \<and> cw = pw
                     then Inr (Some (preset_id p)) else detectActivePreset config ps)"
      by (simp add: ct cw pt pw j1 j2)
    show ?case
      unfolding step ih using pm by simp
  qed
  then show ?thesis
    by (auto simp: find_None_iff)
qed

text \<open>The catalog of \<^verbatim>\<open>getCvPresets\<close> is clean.\<close>

lemma catalog_clean:
  "\<forall>p \<in> set getCvPresets. clean_types (entry_types (sections p))
                              \<and> clean_types (entry_types (sidebar p))"
  by (simp add: getCvPresets_def preset_professional_cv_def preset_full_portfolio_def
      preset_minimal_def clean_types_def entry_def js_get_Cons)

theorem detectActivePreset_first_match_witness:
  "clean_types (types_of (js_get portfolio_config ''sections''))
   \<and> clean_types (types_of (js_get portfolio_config ''sidebar''))
   \<and> list_all (\<lambda>p. clean_types (entry_types (sections p))
                     \<and> clean_types (entry_types (sidebar p))) getCvPresets
   \<and> detectActivePreset portfolio_config getCvPresets = Inr (Some ''full-portfolio'')
   \<and> find (preset_matches portfolio_config) getCvPresets = Some preset_full_portfolio"
proof -
  have h1: "clean_types (types_of (js_get portfolio_config ''sections''))"
    by (simp add: portfolio_config_def clean_types_def types_of_def js_or_def entry_def
        js_get_Cons js_get_Nil)
  have h2: "clean_types (types_of (js_get portfolio_config ''sidebar''))"
    by (simp add: portfolio_config_def clean_types_def types_of_def js_or_def entry_def
        js_get_Cons js_get_Nil)
  have f: "find (preset_matches portfolio_config) getCvPresets = Some preset_full_portfolio"
    by (simp add: portfolio_config_def getCvPresets_def preset_professional_cv_def
        preset_full_portfolio_def preset_minimal_def preset_matches_def types_of_def js_or_def
        entry_def js_get_Cons js_get_Nil)
  show ?thesis
    using h1 h2 catalog_clean f detectActivePreset_first_match [OF h1 h2 catalog_clean]
    by (simp add: preset_full_portfolio_def list_all_iff)
qed

text \<open>
  The per-entry \<^verbatim>\<open>config\<close> payloads play no part: the result depends on the layout and
  the two type sequences only.
\<close>

lemma detectActivePreset_payload:
  assumes "js_get c1 ''layout'' = js_get c2 ''layout''"
    and "types_of (js_get c1 ''sections'') = types_of (js_get c2 ''sections'')"
    and "types_of (js_get c1 ''sidebar'') = types_of (js_get c2 ''sidebar'')"
  shows "detectActivePreset c1 presets = detectActivePreset c2 presets"
  using assms by (induction presets) (simp_all split: sum.splits)

end
